theory Spec2Isabelle
  imports Complex_Main
begin

section \<open>The CSV to Parquet converter (scripts/python/convert_to_parquet.py)\<close>

text \<open>
  The script is one linear sequence of calls into pathlib, pandas and pyarrow, wrapped in
  print statements. The embedding keeps the order of those calls and of the prints, and
  makes explicit what the Python leaves implicit:
  \<^item> the file system the script reads and writes is a value (\<open>files\<close>, \<open>dirs\<close>) that is
    passed through every call, together with the lines printed so far (\<open>out\<close>);
  \<^item> every exception is a value of type \<open>exn\<close>, and a call that can raise returns
    \<open>exn + result\<close>;
  \<^item> the way a call of \<open>convert_csv_to_parquet\<close> ends is an \<open>outcome\<close>: it returns, it
    calls \<open>sys.exit\<close>, or an exception leaves it uncaught;
  \<^item> what pandas and pyarrow compute (tokenising CSV text, the minimum and maximum of
    a column, encoding and decoding Parquet) is not code of this repository: it is a
    parameter (\<open>lib\<close>), and each of these calls can raise.
\<close>

subsection \<open>Paths (pathlib.Path, used lexically)\<close>

text \<open>
  A path is its anchor (absolute or relative) and its components. The script only uses
  \<open>.parent\<close> and \<open>/\<close>, which never touch the file system. \<open>Path('a').parent\<close> is
  \<open>Path('.')\<close>, and the parent of \<open>.\<close> and of \<open>/\<close> is the path itself: the path with
  no components.
\<close>

datatype path = Path (anchored: bool) (parts: "string list")

definition parent :: "path \<Rightarrow> path" where
  "parent p = Path (anchored p) (butlast (parts p))"

definition joinpath :: "path \<Rightarrow> string list \<Rightarrow> path" where
  "joinpath p names = Path (anchored p) (parts p @ names)"

text \<open>The path itself and its ancestors below the anchor, outermost first.\<close>

definition lineage :: "path \<Rightarrow> path list" where
  "lineage p = map (\<lambda>n. Path (anchored p) (take n (parts p))) [1 ..< Suc (length (parts p))]"

subsection \<open>Exceptions and outcomes\<close>

text \<open>
  The exception classes that the calls of the script raise. All of them derive from
  \<open>Exception\<close>. \<open>ValueError c\<close> is the one pandas raises for a \<open>parse_dates\<close> column
  \<open>c\<close> that the header does not have; \<open>TypeError\<close> is what comparing values of
  different types raises; \<open>LibraryError\<close> is any other exception class of pandas or
  pyarrow (a parser error, a decoding error, an Arrow type error).
\<close>

datatype exn =
    FileNotFoundError path
  | NotADirectoryError path
  | IsADirectoryError path
  | FileExistsError path
  | KeyError string
  | ValueError string
  | TypeError string
  | ZeroDivisionError
  | LibraryError string

fun is_FileNotFoundError :: "exn \<Rightarrow> bool" where
  "is_FileNotFoundError (FileNotFoundError p) = True"
| "is_FileNotFoundError e = False"

datatype outcome = Returned | Exited int | Raised exn

text \<open>
  The exit status of the interpreter when the call is the last thing the process does:
  0 after a normal return, the argument of \<open>sys.exit\<close>, and 1 after an uncaught
  exception (CPython prints the traceback and exits with status 1).
\<close>

fun exit_status :: "outcome \<Rightarrow> int" where
  "exit_status Returned = 0"
| "exit_status (Exited n) = n"
| "exit_status (Raised e) = 1"

subsection \<open>The dataset (pandas.DataFrame)\<close>

text \<open>
  A frame has named columns and rows of cells; a cell is a value or missing (\<open>NaN\<close>,
  \<open>NaT\<close>). The type of values is left open. A row that is shorter than the header has
  missing cells at its end, as pandas pads it.
\<close>

type_synonym 'v cell = "'v option"

record 'v frame =
  columns :: "string list"
  rows :: "'v cell list list"

definition len :: "'v frame \<Rightarrow> nat" where
  "len df = length (rows df)"

primrec index_of :: "string \<Rightarrow> string list \<Rightarrow> nat" where
  "index_of c [] = 0"
| "index_of c (x # xs) = (if x = c then 0 else Suc (index_of c xs))"

definition cell_at :: "'v cell list \<Rightarrow> nat \<Rightarrow> 'v cell" where
  "cell_at r i = (if i < length r then r ! i else None)"

text \<open>\<open>df[c]\<close>: the cells of column \<open>c\<close>, or \<open>KeyError\<close>.\<close>

definition getitem :: "'v frame \<Rightarrow> string \<Rightarrow> exn + 'v cell list" where
  "getitem df c =
     (if c \<in> set (columns df)
      then Inr (map (\<lambda>r. cell_at r (index_of c (columns df))) (rows df))
      else Inl (KeyError c))"

fun dropna :: "'v cell list \<Rightarrow> 'v list" where
  "dropna [] = []"
| "dropna (None # cs) = dropna cs"
| "dropna (Some v # cs) = v # dropna cs"

text \<open>\<open>Series.nunique()\<close>: the number of distinct values, missing cells left out.\<close>

definition nunique :: "'v cell list \<Rightarrow> nat" where
  "nunique cs = length (remdups (dropna cs))"

subsection \<open>Console output\<close>

text \<open>
  A printed line is kept as the pieces of its f-string: literal text and formatted
  fields. \<open>Fixed d x\<close> is \<open>{x:.df}\<close>, \<open>FixedW w d x\<close> is \<open>{x:>w.df}\<close>, \<open>Grouped n\<close> is
  \<open>{n:,}\<close>, \<open>GroupedW w n\<close> is \<open>{n:>w,}\<close>, \<open>Num n\<close> is \<open>{n}\<close>, \<open>PathStr p\<close> is \<open>{p}\<close>,
  \<open>Scalar c\<close> is \<open>{c}\<close> for a cell and \<open>ExnStr e\<close> is \<open>{e}\<close> for an exception.
  Python floats are modelled by the reals they denote.
\<close>

datatype 'v piece =
    Txt string
  | PathStr path
  | Num nat
  | Grouped nat
  | GroupedW nat nat
  | Fixed nat real
  | FixedW nat nat real
  | Scalar "'v cell"
  | ExnStr exn

type_synonym 'v line = "'v piece list"

definition nl :: string where
  "nl = [CHR 0x0A]"

subsection \<open>The world: file system and console\<close>

text \<open>
  Regular files with their bytes, directories, and the lines printed so far. The anchor
  itself (\<open>/\<close> or the working directory) always is a directory. Permissions, links and
  I/O faults are not modelled.
\<close>

record 'v world =
  files :: "path \<rightharpoonup> string"
  dirs :: "path set"
  out :: "'v line list"

definition print_line :: "'v line \<Rightarrow> 'v world \<Rightarrow> 'v world" where
  "print_line l w = w\<lparr>out := out w @ [l]\<rparr>"

definition is_dir :: "'v world \<Rightarrow> path \<Rightarrow> bool" where
  "is_dir w p = (parts p = [] \<or> p \<in> dirs w)"

text \<open>A regular file stands where a directory is needed on the way to \<open>p\<close>.\<close>

definition blocked :: "'v world \<Rightarrow> path \<Rightarrow> bool" where
  "blocked w p = (\<exists>a \<in> set (lineage (parent p)). files w a \<noteq> None)"

datatype node = File string | Directory

text \<open>What the operating system finds at a path, or the \<open>OSError\<close> it reports.\<close>

definition resolve :: "'v world \<Rightarrow> path \<Rightarrow> exn + node" where
  "resolve w p =
     (case files w p of
        Some b \<Rightarrow> Inr (File b)
      | None \<Rightarrow>
          if is_dir w p then Inr Directory
          else if blocked w p then Inl (NotADirectoryError p)
          else Inl (FileNotFoundError p))"

subsection \<open>The library parameters\<close>

text \<open>
  \<open>csv_header\<close> and \<open>csv_body\<close> are pandas' reader on the bytes of a file (UTF-8, the
  column \<open>InvoiceDate\<close> parsed as dates): the column names, and the rows. \<open>parquet_encode\<close>
  is pyarrow's writer with snappy compression and no index column, \<open>parquet_decode\<close> its
  reader. \<open>series_min\<close> and \<open>series_max\<close> are \<open>Series.min()\<close> and \<open>Series.max()\<close> on
  the cells of a column: the smallest and the largest value, a missing cell when there is
  none, or the exception that comparing the cells raises (a date column that did not
  parse holds strings, and strings mixed with missing cells do not compare).
  \<open>dir_size\<close> is the \<open>st_size\<close> the platform reports for a directory.
\<close>

record 'v lib =
  csv_header :: "string \<Rightarrow> exn + string list"
  csv_body :: "string \<Rightarrow> exn + 'v cell list list"
  parquet_encode :: "'v frame \<Rightarrow> exn + string"
  parquet_decode :: "string \<Rightarrow> 'v frame option"
  series_min :: "'v cell list \<Rightarrow> exn + 'v cell"
  series_max :: "'v cell list \<Rightarrow> exn + 'v cell"
  dir_size :: nat

text \<open>\<open>path.stat().st_size\<close>\<close>

definition st_size :: "'v lib \<Rightarrow> 'v world \<Rightarrow> path \<Rightarrow> exn + nat" where
  "st_size lib w p =
     (case resolve w p of
        Inl e \<Rightarrow> Inl e
      | Inr (File b) \<Rightarrow> Inr (length b)
      | Inr Directory \<Rightarrow> Inr (dir_size lib))"

text \<open>
  \<open>pd.read_csv(csv_path, encoding='utf-8', parse_dates=['InvoiceDate'])\<close>: open the file,
  read the header, refuse a \<open>parse_dates\<close> column that the header lacks, read the rows.
\<close>

definition read_csv :: "'v lib \<Rightarrow> 'v world \<Rightarrow> path \<Rightarrow> exn + 'v frame" where
  "read_csv lib w p =
     (case resolve w p of
        Inl e \<Rightarrow> Inl e
      | Inr Directory \<Rightarrow> Inl (IsADirectoryError p)
      | Inr (File b) \<Rightarrow>
          (case csv_header lib b of
             Inl e \<Rightarrow> Inl e
           | Inr names \<Rightarrow>
               if ''InvoiceDate'' \<notin> set names then Inl (ValueError ''InvoiceDate'')
               else (case csv_body lib b of
                       Inl e \<Rightarrow> Inl e
                     | Inr rs \<Rightarrow> Inr \<lparr>columns = names, rows = rs\<rparr>)))"

text \<open>
  \<open>d.mkdir(parents=True, exist_ok=True)\<close>: nothing to do when \<open>d\<close> is a directory; an
  error when \<open>d\<close> or one of its ancestors is a regular file; otherwise \<open>d\<close> and every
  missing ancestor become directories.
\<close>

definition mkdir_parents :: "'v world \<Rightarrow> path \<Rightarrow> exn + 'v world" where
  "mkdir_parents w d =
     (if is_dir w d then Inr w
      else if files w d \<noteq> None then Inl (FileExistsError d)
      else if blocked w d then Inl (NotADirectoryError d)
      else Inr (w\<lparr>dirs := dirs w \<union> set (lineage d)\<rparr>))"

text \<open>
  \<open>df.to_parquet(parquet_path, engine='pyarrow', compression='snappy', index=False)\<close>:
  the frame is encoded, then the file is opened for writing and receives the bytes.
\<close>

definition to_parquet :: "'v lib \<Rightarrow> 'v frame \<Rightarrow> path \<Rightarrow> 'v world \<Rightarrow> exn + 'v world" where
  "to_parquet lib df p w =
     (case parquet_encode lib df of
        Inl e \<Rightarrow> Inl e
      | Inr b \<Rightarrow>
          if is_dir w p then Inl (IsADirectoryError p)
          else if blocked w p then Inl (NotADirectoryError p)
          else if \<not> is_dir w (parent p) then Inl (FileNotFoundError p)
          else Inr (w\<lparr>files := (files w)(p \<mapsto> b)\<rparr>))"

subsection \<open>get_file_size_mb (lines 20-22)\<close>

definition get_file_size_mb :: "'v lib \<Rightarrow> 'v world \<Rightarrow> path \<Rightarrow> exn + real" where
  "get_file_size_mb lib w file_path =
     (case st_size lib w file_path of
        Inl e \<Rightarrow> Inl e
      | Inr n \<Rightarrow> Inr (real n / (1024 * 1024)))"

subsection \<open>convert_csv_to_parquet (lines 25-99)\<close>

text \<open>
  Lines 51-63: the report on the loaded dataset. The f-string of line 60 is evaluated
  before it is printed: the column is looked up, then its minimum and its maximum are
  computed, and each of the three can raise.
\<close>

definition report_dataset :: "'v lib \<Rightarrow> 'v frame \<Rightarrow> 'v world \<Rightarrow> 'v world \<times> (exn + unit)" where
  "report_dataset lib df w0 =
     (let w1 = print_line [Txt ''Dataset loaded successfully''] w0;
          w2 = print_line [Txt ''Rows: '', Grouped (len df)] w1;
          w3 = print_line [Txt ''Columns: '', Num (length (columns df))] w2;
          w4 = print_line [Txt nl, Txt ''Column names:''] w3;
          w5 = fold (\<lambda>col. print_line [Txt ''  - '', Txt col]) (columns df) w4;
          w6 = print_line [Txt nl, Txt ''Basic statistics:''] w5
      in (case getitem df ''InvoiceDate'' of
            Inl e \<Rightarrow> (w6, Inl e)
          | Inr dates \<Rightarrow>
      (case series_min lib dates of
         Inl e \<Rightarrow> (w6, Inl e)
       | Inr lo \<Rightarrow>
      (case series_max lib dates of
         Inl e \<Rightarrow> (w6, Inl e)
       | Inr hi \<Rightarrow>
      (let w7 = print_line [Txt ''  Date range: '', Scalar lo, Txt '' to '', Scalar hi] w6
       in (case getitem df ''Invoice'' of
             Inl e \<Rightarrow> (w7, Inl e)
           | Inr invoices \<Rightarrow>
      (let w8 = print_line [Txt ''  Unique invoices: '', Grouped (nunique invoices)] w7
       in (case getitem df ''StockCode'' of
             Inl e \<Rightarrow> (w8, Inl e)
           | Inr products \<Rightarrow>
      (let w9 = print_line [Txt ''  Unique products: '', Grouped (nunique products)] w8
       in (case getitem df ''Customer ID'' of
             Inl e \<Rightarrow> (w9, Inl e)
           | Inr customers \<Rightarrow>
      (print_line [Txt ''  Unique customers: '', Grouped (nunique customers)] w9,
       Inr ())))))))))))"

text \<open>Lines 65-75: the output directory and the Parquet file.\<close>

definition write_output :: "'v lib \<Rightarrow> 'v frame \<Rightarrow> path \<Rightarrow> 'v world \<Rightarrow> 'v world \<times> (exn + unit)" where
  "write_output lib df parquet_path w0 =
     (case mkdir_parents w0 (parent parquet_path) of
        Inl e \<Rightarrow> (w0, Inl e)
      | Inr w1 \<Rightarrow>
     (let w2 = print_line [Txt nl, Txt ''Converting to Parquet format...''] w1
      in (case to_parquet lib df parquet_path w2 of
            Inl e \<Rightarrow> (w2, Inl e)
          | Inr w3 \<Rightarrow> (w3, Inr ()))))"

text \<open>Lines 77-92: the sizes and the compression ratio.\<close>

definition report_summary ::
  "'v lib \<Rightarrow> 'v frame \<Rightarrow> path \<Rightarrow> path \<Rightarrow> 'v world \<Rightarrow> 'v world \<times> (exn + unit)" where
  "report_summary lib df csv_path parquet_path w0 =
     (let w1 = print_line [Txt ''Parquet file created: '', PathStr parquet_path] w0
      in (case get_file_size_mb lib w1 parquet_path of
            Inl e \<Rightarrow> (w1, Inl e)
          | Inr shown \<Rightarrow>
      (let w2 = print_line [Txt ''File size: '', Fixed 2 shown, Txt '' MB''] w1
       in (case get_file_size_mb lib w2 csv_path of
             Inl e \<Rightarrow> (w2, Inl e)
           | Inr csv_size \<Rightarrow>
      (case get_file_size_mb lib w2 parquet_path of
         Inl e \<Rightarrow> (w2, Inl e)
       | Inr parquet_size \<Rightarrow>
      (if csv_size = 0 then (w2, Inl ZeroDivisionError)
       else
      (let compression_ratio = (1 - parquet_size / csv_size) * 100;
           w3 = print_line [Txt nl, Txt (replicate 60 CHR ''='')] w2;
           w4 = print_line [Txt ''CONVERSION SUMMARY''] w3;
           w5 = print_line [Txt (replicate 60 CHR ''='')] w4;
           w6 = print_line [Txt ''CSV size:          '', FixedW 10 2 csv_size, Txt '' MB''] w5;
           w7 = print_line [Txt ''Parquet size:      '', FixedW 10 2 parquet_size, Txt '' MB''] w6;
           w8 = print_line [Txt ''Compression ratio: '', FixedW 10 1 compression_ratio, Txt ''%''] w7;
           w9 = print_line [Txt ''Rows processed:    '', GroupedW 10 (len df)] w8
       in (print_line [Txt (replicate 60 CHR ''='')] w9, Inr ()))))))))"

text \<open>Lines 45-92: the body of the \<open>try\<close> statement.\<close>

definition try_body ::
  "'v lib \<Rightarrow> path \<Rightarrow> path \<Rightarrow> 'v world \<Rightarrow> 'v world \<times> (exn + unit)" where
  "try_body lib csv_path parquet_path w0 =
     (case read_csv lib w0 csv_path of
        Inl e \<Rightarrow> (w0, Inl e)
      | Inr df \<Rightarrow>
     (case report_dataset lib df w0 of
        (w1, Inl e) \<Rightarrow> (w1, Inl e)
      | (w1, Inr u) \<Rightarrow>
     (case write_output lib df parquet_path w1 of
        (w2, Inl e) \<Rightarrow> (w2, Inl e)
      | (w2, Inr u) \<Rightarrow> report_summary lib df csv_path parquet_path w2)))"

text \<open>
  The whole function. The first two prints, with the call of \<open>get_file_size_mb\<close>, stand
  before the \<open>try\<close>. The parameter \<open>chunk_size\<close> is accepted and not read.
\<close>

definition convert_csv_to_parquet ::
  "'v lib \<Rightarrow> path \<Rightarrow> path \<Rightarrow> int \<Rightarrow> 'v world \<Rightarrow> 'v world \<times> outcome" where
  "convert_csv_to_parquet lib csv_path parquet_path chunk_size w0 =
     (let w1 = print_line [Txt ''Reading CSV file: '', PathStr csv_path] w0
      in (case get_file_size_mb lib w1 csv_path of
            Inl e \<Rightarrow> (w1, Raised e)
          | Inr sz \<Rightarrow>
      (let w2 = print_line [Txt ''File size: '', Fixed 2 sz, Txt '' MB'', Txt nl] w1
       in (case try_body lib csv_path parquet_path w2 of
             (w3, Inr u) \<Rightarrow> (w3, Returned)
           | (w3, Inl e) \<Rightarrow>
               (if is_FileNotFoundError e
                then (print_line [Txt ''Error: CSV file not found at '', PathStr csv_path] w3,
                      Exited 1)
                else (print_line [Txt ''Error during conversion: '', ExnStr e] w3,
                      Exited 1))))))"

subsection \<open>main (lines 102-122)\<close>

text \<open>
  What a process offers the script: its arguments, its environment and \<open>__file__\<close>.
  \<open>main\<close> reads \<open>__file__\<close> only.
\<close>

record process =
  argv :: "string list"
  environ :: "string \<rightharpoonup> string"
  script_file :: path

text \<open>Lines 109-113.\<close>

definition print_banner :: "'v world \<Rightarrow> 'v world" where
  "print_banner w0 =
     (let w1 = print_line [Txt (replicate 60 CHR ''='')] w0;
          w2 = print_line [Txt ''CSV to Parquet Conversion Tool''] w1;
          w3 = print_line [Txt ''Online Retail II Dataset''] w2;
          w4 = print_line [Txt (replicate 60 CHR ''='')] w3
      in print_line [] w4)"

text \<open>Lines 118-122.\<close>

definition print_next_steps :: "path \<Rightarrow> 'v world \<Rightarrow> 'v world" where
  "print_next_steps parquet_path w0 =
     (let w1 = print_line [Txt nl, Txt ''Conversion completed successfully!''] w0;
          w2 = print_line [Txt nl, Txt ''Next steps:''] w1;
          w3 = print_line [Txt ''  1. Review the Parquet file: '', PathStr parquet_path] w2;
          w4 = print_line [Txt ''  2. Upload both CSV and Parquet files to S3''] w3
      in print_line [Txt ''  3. See docs/s3-upload-instructions.md for upload commands''] w4)"

text \<open>
  When \<open>convert_csv_to_parquet\<close> does not return, neither does \<open>main\<close>: the exit or
  the exception goes on to the interpreter.
\<close>

definition main :: "'v lib \<Rightarrow> process \<Rightarrow> 'v world \<Rightarrow> 'v world \<times> outcome" where
  "main lib pr w0 =
     (let project_root = parent (parent (parent (script_file pr)));
          csv_path = joinpath project_root [''data'', ''raw'', ''online_retail_II.csv''];
          parquet_path = joinpath project_root [''data'', ''processed'', ''online_retail.parquet''];
          w1 = print_banner w0
      in case convert_csv_to_parquet lib csv_path parquet_path 100000 w1 of
           (w2, Returned) \<Rightarrow> (print_next_steps parquet_path w2, Returned)
         | (w2, r) \<Rightarrow> (w2, r))"

subsection \<open>A small instance\<close>

text \<open>
  A project directory with a source file of eight bytes, and a library that reads three
  rows of four columns from it. The instance is used to run the definitions on.
\<close>

definition sample_root :: path where "sample_root = Path True [''proj'']"
definition sample_csv :: path where "sample_csv = Path True [''proj'', ''data'', ''raw'', ''online_retail_II.csv'']"
definition sample_parquet :: path where "sample_parquet = Path True [''proj'', ''data'', ''processed'', ''online_retail.parquet'']"

definition sample_frame :: "nat frame" where
  "sample_frame = \<lparr>columns = [''Invoice'', ''StockCode'', ''InvoiceDate'', ''Customer ID''],
      rows = [[Some 489434, Some 85048, Some 20091201, Some 13085],
              [Some 489434, Some 79323, Some 20091201, Some 13085],
              [Some 489435, Some 85048, Some 20091202, None]]\<rparr>"

text \<open>The minimum and maximum of the sample library: numbers always compare.\<close>

definition sample_min :: "nat cell list \<Rightarrow> exn + nat cell" where
  "sample_min cs = Inr (case dropna cs of [] \<Rightarrow> None | v # vs \<Rightarrow> Some (fold min vs v))"

definition sample_max :: "nat cell list \<Rightarrow> exn + nat cell" where
  "sample_max cs = Inr (case dropna cs of [] \<Rightarrow> None | v # vs \<Rightarrow> Some (fold max vs v))"

definition sample_lib :: "nat lib" where
  "sample_lib = \<lparr>csv_header = (\<lambda>b. if b = [] then Inl (LibraryError ''EmptyDataError'') else Inr (columns sample_frame)),
     csv_body = (\<lambda>b. Inr (rows sample_frame)),
     parquet_encode = (\<lambda>df. Inr ''PAR1''),
     parquet_decode = (\<lambda>b. if b = ''PAR1'' then Some sample_frame else None),
     series_min = sample_min, series_max = sample_max,
     dir_size = 4096\<rparr>"

definition sample_world :: "nat world" where
  "sample_world = \<lparr>files = [sample_csv \<mapsto> ''Invoice,''],
      dirs = {Path True [''proj''], Path True [''proj'', ''data''], Path True [''proj'', ''data'', ''raw'']},
      out = []\<rparr>"

definition empty_world :: "nat world" where
  "empty_world = \<lparr>files = Map.empty, dirs = {}, out = []\<rparr>"

definition sample_process :: process where
  "sample_process = \<lparr>argv = [''convert_to_parquet.py''], environ = Map.empty,
     script_file = Path True [''proj'', ''scripts'', ''python'', ''convert_to_parquet.py'']\<rparr>"

definition no_stock_lib :: "nat lib" where
  "no_stock_lib = sample_lib\<lparr>csv_header := (\<lambda>b. Inr [''Invoice'', ''InvoiceDate'', ''Customer ID''])\<rparr>"

text \<open>The same header, over a date column whose cells do not compare.\<close>

definition mixed_dates_lib :: "nat lib" where
  "mixed_dates_lib = no_stock_lib\<lparr>series_min := (\<lambda>cs. Inl (TypeError ''str and float''))\<rparr>"

definition no_date_lib :: "nat lib" where
  "no_date_lib = sample_lib\<lparr>csv_header := (\<lambda>b. Inr [''Invoice'', ''StockCode'', ''Customer ID''])\<rparr>"

definition sourceless_world :: "nat world" where
  "sourceless_world = sample_world\<lparr>files := Map.empty\<rparr>"

section \<open>Auxiliary facts\<close>

subsection \<open>Printing leaves the file system alone\<close>

lemma files_print_line [simp]: "files (print_line l w) = files w"
  and dirs_print_line [simp]: "dirs (print_line l w) = dirs w"
  and out_print_line [simp]: "out (print_line l w) = out w @ [l]"
  by (simp_all add: print_line_def)

lemma is_dir_cong: "dirs w' = dirs w \<Longrightarrow> is_dir w' p = is_dir w p"
  by (simp add: is_dir_def)

lemma blocked_cong: "files w' = files w \<Longrightarrow> blocked w' p = blocked w p"
  by (simp add: blocked_def)

lemma resolve_cong: "files w' = files w \<Longrightarrow> dirs w' = dirs w \<Longrightarrow> resolve w' p = resolve w p"
  unfolding resolve_def by (simp add: is_dir_cong [of w' w] blocked_cong [of w' w])

lemma resolve_print_line [simp]: "resolve (print_line l w) p = resolve w p"
  by (rule resolve_cong) simp_all

lemma st_size_print_line [simp]: "st_size lib (print_line l w) p = st_size lib w p"
  by (simp add: st_size_def)

lemma get_file_size_mb_print_line [simp]:
  "get_file_size_mb lib (print_line l w) p = get_file_size_mb lib w p"
  by (simp add: get_file_size_mb_def)

lemma read_csv_print_line [simp]: "read_csv lib (print_line l w) p = read_csv lib w p"
  by (simp add: read_csv_def)

subsection \<open>A source that is not there\<close>

lemma convert_source_missing:
  assumes "files w csv_path = None" and "\<not> is_dir w csv_path"
  shows "\<exists>e. resolve w csv_path = Inl e \<and>
     convert_csv_to_parquet lib csv_path parquet_path c w =
       (print_line [Txt ''Reading CSV file: '', PathStr csv_path] w, Raised e)"
proof -
  from assms have "\<exists>e. resolve w csv_path = Inl e"
    by (simp add: resolve_def)
  then obtain e where e: "resolve w csv_path = Inl e" ..
  then have "get_file_size_mb lib w csv_path = Inl e"
    by (simp add: get_file_size_mb_def st_size_def)
  then show ?thesis using e
    by (simp add: convert_csv_to_parquet_def Let_def)
qed

subsection \<open>The report on the dataset\<close>

lemma fold_print_line:
  "fold (\<lambda>c. print_line (f c)) cs w = w\<lparr>out := out w @ map f cs\<rparr>"
  by (induction cs arbitrary: w) (simp_all add: print_line_def)

lemma report_dataset_files [simp]: "files (fst (report_dataset lib df w)) = files w"
  by (simp add: report_dataset_def Let_def fold_print_line split: sum.splits)

lemma report_dataset_dirs [simp]: "dirs (fst (report_dataset lib df w)) = dirs w"
  by (simp add: report_dataset_def Let_def fold_print_line split: sum.splits)

lemma report_dataset_out: "\<exists>ls. out (fst (report_dataset lib df w)) = out w @ ls"
  by (simp add: report_dataset_def Let_def fold_print_line split: sum.splits)

text \<open>Whether the report fails, and with what, does not depend on the world.\<close>

lemma report_dataset_result: "snd (report_dataset lib df w) = snd (report_dataset lib df w')"
  by (simp add: report_dataset_def Let_def split: sum.splits)

lemma report_dataset_ok:
  assumes "getitem df ''InvoiceDate'' = Inr dates"
    and "series_min lib dates = Inr lo" and "series_max lib dates = Inr hi"
    and "getitem df ''Invoice'' = Inr invoices"
    and "getitem df ''StockCode'' = Inr products" and "getitem df ''Customer ID'' = Inr customers"
  shows "snd (report_dataset lib df w) = Inr () \<and>
     [Txt ''  Unique invoices: '', Grouped (nunique invoices)] \<in> set (out (fst (report_dataset lib df w))) \<and>
     [Txt ''  Unique products: '', Grouped (nunique products)] \<in> set (out (fst (report_dataset lib df w))) \<and>
     [Txt ''  Unique customers: '', Grouped (nunique customers)] \<in> set (out (fst (report_dataset lib df w)))"
  using assms by (simp add: report_dataset_def Let_def)

lemma report_dataset_fails:
  assumes "\<not> set [''InvoiceDate'', ''Invoice'', ''StockCode'', ''Customer ID''] \<subseteq> set (columns df)"
  shows "\<exists>e. snd (report_dataset lib df w) = Inl e"
  using assms
  by (auto simp add: report_dataset_def Let_def getitem_def split: sum.splits)

subsection \<open>Ancestors and mkdir\<close>

lemma parts_parent [simp]: "parts (parent p) = butlast (parts p)"
  and anchored_parent [simp]: "anchored (parent p) = anchored p"
  by (simp_all add: parent_def)

lemma set_lineage: "set (lineage p) = {Path (anchored p) (take n (parts p)) |n. 1 \<le> n \<and> n \<le> length (parts p)}"
  by (auto simp add: lineage_def)

lemma self_in_lineage: "parts p \<noteq> [] \<Longrightarrow> p \<in> set (lineage p)"
proof -
  assume "parts p \<noteq> []"
  then have "1 \<le> length (parts p)" by (cases "parts p") simp_all
  moreover have "p = Path (anchored p) (take (length (parts p)) (parts p))" by simp
  ultimately show ?thesis unfolding set_lineage by blast
qed

lemma lineage_shorter: "a \<in> set (lineage p) \<Longrightarrow> length (parts a) \<le> length (parts p)"
  by (auto simp add: set_lineage)

lemma not_in_parent_lineage: "parts p \<noteq> [] \<Longrightarrow> p \<notin> set (lineage (parent p))"
proof
  assume ne: "parts p \<noteq> []" and "p \<in> set (lineage (parent p))"
  then have "length (parts p) \<le> length (parts (parent p))" by (rule_tac lineage_shorter)
  with ne show False by (cases "parts p" rule: rev_cases) simp_all
qed

lemma mkdir_parents_Inr:
  assumes "mkdir_parents w d = Inr w'"
  shows "files w' = files w \<and> out w' = out w \<and> is_dir w' d \<and>
         dirs w' = (if is_dir w d then dirs w else dirs w \<union> set (lineage d)) \<and>
         (\<not> is_dir w d \<longrightarrow> \<not> blocked w d \<and> files w d = None)"
  using assms
  by (auto simp add: mkdir_parents_def is_dir_def self_in_lineage split: if_splits)

lemma mkdir_parents_Inl:
  assumes "mkdir_parents w d = Inl e"
  shows "\<exists>a \<in> set (lineage d). files w a \<noteq> None"
proof -
  from assms have nd: "\<not> is_dir w d" and *: "files w d \<noteq> None \<or> blocked w d"
    by (auto simp add: mkdir_parents_def split: if_splits)
  from nd have ne: "parts d \<noteq> []" by (simp add: is_dir_def)
  from * show ?thesis
  proof
    assume "files w d \<noteq> None"
    with self_in_lineage [OF ne] show ?thesis by blast
  next
    assume "blocked w d"
    then obtain a where "a \<in> set (lineage (parent d))" "files w a \<noteq> None"
      by (auto simp add: blocked_def)
    moreover have "set (lineage (parent d)) \<subseteq> set (lineage d)"
      by (auto simp add: set_lineage take_butlast) 
    ultimately show ?thesis by blast
  qed
qed

subsection \<open>The output directory and file\<close>

lemma is_dir_print_line [simp]: "is_dir (print_line l w) p = is_dir w p"
  by (simp add: is_dir_def)

lemma blocked_print_line [simp]: "blocked (print_line l w) p = blocked w p"
  by (simp add: blocked_def)

lemma write_output_dirs:
  assumes "\<not> (\<exists>a \<in> set (lineage (parent q)). files w a \<noteq> None)"
  shows "dirs (fst (write_output lib df q w)) =
           (if is_dir w (parent q) then dirs w else dirs w \<union> set (lineage (parent q))) \<and>
         is_dir (fst (write_output lib df q w)) (parent q)"
proof (cases "mkdir_parents w (parent q)")
  case (Inl e)
  from mkdir_parents_Inl [OF this] assms show ?thesis by blast
next
  case (Inr w1)
  from mkdir_parents_Inr [OF this] Inr show ?thesis
    by (auto simp add: write_output_def Let_def to_parquet_def is_dir_def split: sum.splits)
qed

lemma write_output_Inr:
  assumes "write_output lib df q w = (w', Inr u)"
  shows "\<exists>pb. parquet_encode lib df = Inr pb \<and> files w' = (files w)(q \<mapsto> pb) \<and>
           (\<exists>ls. out w' = out w @ ls)"
proof (cases "mkdir_parents w (parent q)")
  case (Inl e)
  with assms show ?thesis by (simp add: write_output_def)
next
  case (Inr w1)
  from mkdir_parents_Inr [OF this] Inr assms show ?thesis
    by (auto simp add: write_output_def Let_def to_parquet_def split: sum.splits if_splits)
qed

lemma write_output_files:
  assumes "\<not> (\<exists>a \<in> set (lineage (parent q)). files w a \<noteq> None)"
    and "parquet_encode lib df = Inr pb" and "\<not> is_dir w q"
  shows "write_output lib df q w =
     (print_line [Txt nl, Txt ''Converting to Parquet format...'']
        (w\<lparr>dirs := (if is_dir w (parent q) then dirs w else dirs w \<union> set (lineage (parent q)))\<rparr>)
        \<lparr>files := (files w)(q \<mapsto> pb)\<rparr>, Inr ())"
proof (cases "mkdir_parents w (parent q)")
  case (Inl e)
  from mkdir_parents_Inl [OF this] assms show ?thesis by blast
next
  case (Inr w1)
  from assms(3) have ne: "parts q \<noteq> []" and nd: "q \<notin> dirs w" by (simp_all add: is_dir_def)
  have nb: "\<not> blocked w q" using assms(1) by (simp add: blocked_def)
  have w1: "w1 = w\<lparr>dirs := (if is_dir w (parent q) then dirs w else dirs w \<union> set (lineage (parent q)))\<rparr>"
    using Inr by (auto simp add: mkdir_parents_def split: if_splits)
  have "\<not> is_dir w1 q" using ne nd not_in_parent_lineage [OF ne] by (simp add: w1 is_dir_def)
  moreover have "\<not> blocked w1 q" using nb by (simp add: w1 blocked_def)
  moreover have "is_dir w1 (parent q)" using mkdir_parents_Inr [OF Inr] by simp
  ultimately have "write_output lib df q w =
      ((print_line [Txt nl, Txt ''Converting to Parquet format...''] w1)\<lparr>files := (files w1)(q \<mapsto> pb)\<rparr>, Inr ())"
    using Inr assms(2) by (simp add: write_output_def Let_def to_parquet_def)
  moreover have "files w1 = files w" by (simp add: w1)
  ultimately show ?thesis by (simp add: w1 [symmetric])
qed

lemma write_output_out: "\<exists>ls. out (fst (write_output lib df q w)) = out w @ ls"
proof (cases "mkdir_parents w (parent q)")
  case (Inl e)
  then show ?thesis by (simp add: write_output_def)
next
  case (Inr w1)
  from mkdir_parents_Inr [OF this] Inr show ?thesis
    by (auto simp add: write_output_def Let_def to_parquet_def split: sum.splits if_splits)
qed

subsection \<open>The summary\<close>

lemma report_summary_files [simp]: "files (fst (report_summary lib df c q w)) = files w"
  by (simp add: report_summary_def Let_def split: sum.splits)

lemma report_summary_dirs [simp]: "dirs (fst (report_summary lib df c q w)) = dirs w"
  by (simp add: report_summary_def Let_def split: sum.splits)

lemma report_summary_out: "\<exists>ls. out (fst (report_summary lib df c q w)) = out w @ ls"
  by (simp add: report_summary_def Let_def split: sum.splits)

lemma report_summary_Inr:
  assumes "report_summary lib df c q w = (w', Inr u)"
  shows "\<exists>csv_size parquet_size.
           get_file_size_mb lib w c = Inr csv_size \<and> get_file_size_mb lib w q = Inr parquet_size \<and>
           csv_size \<noteq> 0 \<and>
           [Txt ''Compression ratio: '', FixedW 10 1 ((1 - parquet_size / csv_size) * 100), Txt ''%'']
             \<in> set (out w')"
  using assms
  by (auto simp add: report_summary_def Let_def split: sum.splits if_splits)

subsection \<open>The steps put together\<close>

lemma get_file_size_mb_file:
  "files w p = Some b \<Longrightarrow> get_file_size_mb lib w p = Inr (real (length b) / 1048576)"
  by (simp add: get_file_size_mb_def st_size_def resolve_def)

lemma read_csv_file:
  assumes "files w p = Some b" and "csv_header lib b = Inr names"
  shows "read_csv lib w p =
     (if ''InvoiceDate'' \<notin> set names then Inl (ValueError ''InvoiceDate'')
      else (case csv_body lib b of Inl e \<Rightarrow> Inl e | Inr rs \<Rightarrow> Inr \<lparr>columns = names, rows = rs\<rparr>))"
  using assms by (simp add: read_csv_def resolve_def)

lemma read_csv_cong:
  "files w' = files w \<Longrightarrow> dirs w' = dirs w \<Longrightarrow> read_csv lib w' p = read_csv lib w p"
  by (simp add: read_csv_def resolve_cong [of w' w])

lemma convert_source_file:
  assumes "files w csv_path = Some b"
  shows "convert_csv_to_parquet lib csv_path parquet_path c w =
     (case try_body lib csv_path parquet_path
             (print_line [Txt ''File size: '', Fixed 2 (real (length b) / 1048576), Txt '' MB'', Txt nl]
               (print_line [Txt ''Reading CSV file: '', PathStr csv_path] w)) of
        (w3, Inr u) \<Rightarrow> (w3, Returned)
      | (w3, Inl e) \<Rightarrow>
          (if is_FileNotFoundError e
           then (print_line [Txt ''Error: CSV file not found at '', PathStr csv_path] w3, Exited 1)
           else (print_line [Txt ''Error during conversion: '', ExnStr e] w3, Exited 1)))"
  using get_file_size_mb_file [OF assms, of lib]
  by (simp add: convert_csv_to_parquet_def Let_def)

lemma try_body_load_error:
  "read_csv lib w csv_path = Inl e \<Longrightarrow> try_body lib csv_path parquet_path w = (w, Inl e)"
  by (simp add: try_body_def)

lemma try_body_report_error:
  assumes "read_csv lib w csv_path = Inr df" and "snd (report_dataset lib df w) = Inl e"
  shows "try_body lib csv_path parquet_path w = (fst (report_dataset lib df w), Inl e)"
  using assms by (cases "report_dataset lib df w") (simp add: try_body_def)

lemma try_body_out:
  assumes "read_csv lib w csv_path = Inr df"
  shows "\<exists>ls. out (fst (try_body lib csv_path parquet_path w)) = out (fst (report_dataset lib df w)) @ ls"
proof (cases "report_dataset lib df w")
  case (Pair w1 r1)
  show ?thesis
  proof (cases r1)
    case (Inl e)
    with Pair assms show ?thesis by (simp add: try_body_def)
  next
    case (Inr u)
    obtain w2 r2 where wo: "write_output lib df parquet_path w1 = (w2, r2)" by fastforce
    from write_output_out [of lib df parquet_path w1] wo
    obtain ls where ls: "out w2 = out w1 @ ls" by auto
    show ?thesis
    proof (cases r2)
      case (Inl e)
      with Pair Inr wo ls assms show ?thesis by (simp add: try_body_def)
    next
      case r2: (Inr u2)
      from report_summary_out [of lib df csv_path parquet_path w2]
      obtain ls' where "out (fst (report_summary lib df csv_path parquet_path w2)) = out w2 @ ls'" ..
      with Pair Inr wo ls r2 assms show ?thesis by (simp add: try_body_def)
    qed
  qed
qed

lemma convert_out:
  assumes "files w csv_path = Some b"
  shows "\<exists>ls. out (fst (convert_csv_to_parquet lib csv_path parquet_path c w)) =
     out (fst (try_body lib csv_path parquet_path
             (print_line [Txt ''File size: '', Fixed 2 (real (length b) / 1048576), Txt '' MB'', Txt nl]
               (print_line [Txt ''Reading CSV file: '', PathStr csv_path] w)))) @ ls"
  unfolding convert_source_file [OF assms]
  by (simp split: prod.splits sum.splits)

subsection \<open>Distinct values\<close>

lemma set_dropna: "set (dropna cs) = {v. Some v \<in> set cs}"
  by (induction cs rule: dropna.induct) auto

lemma nunique_card: "nunique cs = card {v. Some v \<in> set cs}"
  by (simp add: nunique_def length_remdups_card_conv set_dropna)

subsection \<open>What a call that returns has gone through\<close>

lemma convert_Returned:
  assumes "convert_csv_to_parquet lib csv_path parquet_path c w = (w', Returned)"
  shows "\<exists>b df w2 pb.
     files w csv_path = Some b \<and> read_csv lib w csv_path = Inr df \<and>
     parquet_encode lib df = Inr pb \<and> files w2 = (files w)(parquet_path \<mapsto> pb) \<and>
     report_summary lib df csv_path parquet_path w2 = (w', Inr ())"
proof -
  from assms obtain b where b: "files w csv_path = Some b"
    by (cases "files w csv_path")
       (auto simp add: convert_csv_to_parquet_def Let_def get_file_size_mb_def st_size_def resolve_def
             read_csv_def try_body_def split: if_splits)
  define w2 where "w2 = print_line [Txt ''File size: '', Fixed 2 (real (length b) / 1048576), Txt '' MB'', Txt nl]
               (print_line [Txt ''Reading CSV file: '', PathStr csv_path] w)"
  have f2: "files w2 = files w" and d2: "dirs w2 = dirs w" by (simp_all add: w2_def)
  obtain w9 r9 where t9: "try_body lib csv_path parquet_path w2 = (w9, r9)" by fastforce
  from assms have tb: "try_body lib csv_path parquet_path w2 = (w', Inr ())"
    unfolding convert_source_file [OF b] w2_def [symmetric] t9
    by (cases r9) (simp_all add: t9 split: if_splits)
  then obtain df where rd: "read_csv lib w2 csv_path = Inr df"
    by (cases "read_csv lib w2 csv_path") (simp_all add: try_body_def)
  then have rdw: "read_csv lib w csv_path = Inr df" by (simp add: read_csv_cong [OF f2 d2])
  obtain w3 r3 where rep: "report_dataset lib df w2 = (w3, r3)" by fastforce
  with tb rd obtain u3 where r3: "r3 = Inr u3" by (cases r3) (simp_all add: try_body_def)
  obtain w4 r4 where wo: "write_output lib df parquet_path w3 = (w4, r4)" by fastforce
  with tb rd rep r3 obtain u4 where r4: "r4 = Inr u4" by (cases r4) (simp_all add: try_body_def)
  from tb rd rep r3 wo r4 have rs: "report_summary lib df csv_path parquet_path w4 = (w', Inr ())"
    by (simp add: try_body_def)
  from write_output_Inr [OF wo [unfolded r4]]
  obtain pb where pb: "parquet_encode lib df = Inr pb" "files w4 = (files w3)(parquet_path \<mapsto> pb)" by blast
  have "files w3 = files w" using report_dataset_files [of lib df w2] rep f2 by simp
  with pb b rdw rs show ?thesis by auto
qed

subsection \<open>The small instance, run\<close>

lemmas sample_defs = sample_min_def sample_max_def mixed_dates_lib_def sample_world_def sample_lib_def sample_frame_def sample_csv_def sample_parquet_def
  sample_root_def empty_world_def sample_process_def no_stock_lib_def no_date_lib_def sourceless_world_def

lemmas run_defs = convert_csv_to_parquet_def try_body_def report_dataset_def write_output_def
  report_summary_def get_file_size_mb_def st_size_def resolve_def read_csv_def mkdir_parents_def
  to_parquet_def is_dir_def blocked_def lineage_def parent_def getitem_def print_line_def Let_def

lemma sample_run_outcome:
  "snd (convert_csv_to_parquet sample_lib sample_csv sample_parquet 100000 sample_world) = Returned"
  by (simp add: sample_defs run_defs)

lemma sample_run_files:
  "files (fst (convert_csv_to_parquet sample_lib sample_csv sample_parquet 100000 sample_world)) =
     [sample_csv \<mapsto> ''Invoice,'', sample_parquet \<mapsto> ''PAR1'']"
  by (simp add: sample_defs run_defs)

lemma sample_run_dirs:
  "dirs (fst (convert_csv_to_parquet sample_lib sample_csv sample_parquet 100000 sample_world)) =
     {Path True [''proj''], Path True [''proj'', ''data''], Path True [''proj'', ''data'', ''raw''],
      Path True [''proj'', ''data'', ''processed'']}"
  by (auto simp add: sample_defs run_defs)

lemma sample_run_pair:
  "convert_csv_to_parquet sample_lib sample_csv sample_parquet 100000 sample_world =
     (fst (convert_csv_to_parquet sample_lib sample_csv sample_parquet 100000 sample_world), Returned)"
  by (simp add: prod_eq_iff sample_run_outcome)

lemma sample_source: "files sample_world sample_csv = Some ''Invoice,''"
  by (simp add: sample_defs)

lemma sample_header: "csv_header sample_lib ''Invoice,'' = Inr (columns sample_frame)"
  and sample_body: "csv_body sample_lib ''Invoice,'' = Inr (rows sample_frame)"
  by (simp_all add: sample_defs)

lemma sample_dates:
  "getitem \<lparr>columns = columns sample_frame, rows = rows sample_frame\<rparr> ''InvoiceDate'' =
     Inr [Some 20091201, Some 20091201, Some 20091202]"
  "series_min sample_lib [Some 20091201, Some 20091201, Some 20091202] = Inr (Some 20091201)"
  "series_max sample_lib [Some 20091201, Some 20091201, Some 20091202] = Inr (Some 20091202)"
  by (simp_all add: sample_defs getitem_def cell_at_def)

section \<open>The claims\<close>

subsection \<open>C1\<close>

text \<open>
  Claim C1. Round trip. Let the source file load as \<open>N\<close> rows under \<open>M\<close> column names, and
  let the call return. Then the bytes at the destination are the encoding of exactly the
  frame that was loaded (nothing is changed between load and write), and they decode to
  \<open>N\<close> rows under the same column names. What the codec of the library does is its
  own: the theorem asks of it that the encoding of this frame decodes to a frame of the
  same shape.
\<close>

theorem parquet_round_trip:
  assumes "convert_csv_to_parquet lib csv_path parquet_path c w = (w', Returned)"
    and "files w csv_path = Some b"
    and "csv_header lib b = Inr names" and "csv_body lib b = Inr rs"
    and "\<forall>pb. parquet_encode lib \<lparr>columns = names, rows = rs\<rparr> = Inr pb \<longrightarrow>
           (\<exists>df'. parquet_decode lib pb = Some df' \<and> len df' = length rs \<and> columns df' = names)"
  shows "\<exists>pb df'. parquet_encode lib \<lparr>columns = names, rows = rs\<rparr> = Inr pb \<and>
           files w' parquet_path = Some pb \<and>
           parquet_decode lib pb = Some df' \<and> len df' = length rs \<and> columns df' = names"
proof -
  from convert_Returned [OF assms(1)] obtain df w2 pb where
    rd: "read_csv lib w csv_path = Inr df" and
    pb: "parquet_encode lib df = Inr pb" "files w2 = (files w)(parquet_path \<mapsto> pb)"
    and rs: "report_summary lib df csv_path parquet_path w2 = (w', Inr ())" by blast
  from rd have df: "df = \<lparr>columns = names, rows = rs\<rparr>"
    by (simp add: read_csv_file [OF assms(2,3)] assms(4) split: if_splits)
  have "files w' = files w2" using report_summary_files [of lib df csv_path parquet_path w2] rs by simp
  then have "files w' parquet_path = Some pb" by (simp add: pb)
  with pb(1) assms(5) show ?thesis unfolding df by blast
qed

theorem parquet_round_trip_witness:
  "\<exists>pb df'. files (fst (convert_csv_to_parquet sample_lib sample_csv sample_parquet 100000 sample_world))
                sample_parquet = Some pb \<and>
     parquet_decode sample_lib pb = Some df' \<and> len df' = 3 \<and>
     columns df' = [''Invoice'', ''StockCode'', ''InvoiceDate'', ''Customer ID'']"
proof -
  have "\<forall>pb. parquet_encode sample_lib \<lparr>columns = columns sample_frame, rows = rows sample_frame\<rparr> = Inr pb \<longrightarrow>
           (\<exists>df'. parquet_decode sample_lib pb = Some df' \<and> len df' = length (rows sample_frame) \<and>
                  columns df' = columns sample_frame)"
    by (auto simp add: sample_lib_def len_def)
  from parquet_round_trip [OF sample_run_pair sample_source sample_header sample_body this]
  show ?thesis by (auto simp add: sample_frame_def)
qed

subsection \<open>C2\<close>

text \<open>
  Claim C2. With a source file that does not exist, the call does not reach its handler
  for \<open>FileNotFoundError\<close>: \<open>get_file_size_mb\<close> is called before the \<open>try\<close>, its
  exception leaves the function uncaught, and the only line printed is the first one.
  The message of the handler is not printed and \<open>sys.exit(1)\<close> is not called.
\<close>

theorem missing_source_not_handled:
  "convert_csv_to_parquet sample_lib sample_csv sample_parquet 100000 empty_world =
     (empty_world\<lparr>out := [[Txt ''Reading CSV file: '', PathStr sample_csv]]\<rparr>,
      Raised (FileNotFoundError sample_csv))"
  by (simp add: convert_csv_to_parquet_def get_file_size_mb_def st_size_def resolve_def
      empty_world_def is_dir_def blocked_def sample_csv_def print_line_def lineage_def parent_def)

subsection \<open>C3\<close>

text \<open>
  Claim C3. When the source path does not exist, the call leaves files and directories
  as they were, and the process ends with exit status 1 (the status of the uncaught
  exception).
\<close>

theorem missing_source_leaves_file_system:
  assumes "files w csv_path = None" and "\<not> is_dir w csv_path"
    and "convert_csv_to_parquet lib csv_path parquet_path c w = (w', r)"
  shows "exit_status r = 1 \<and> files w' = files w \<and> dirs w' = dirs w"
  using convert_source_missing [OF assms(1,2), of lib parquet_path c] assms(3) by auto

theorem missing_source_leaves_file_system_witness:
  "files sourceless_world sample_csv = None \<and> \<not> is_dir sourceless_world sample_csv \<and>
   exit_status (snd (convert_csv_to_parquet sample_lib sample_csv sample_parquet 100000 sourceless_world)) = 1 \<and>
   files (fst (convert_csv_to_parquet sample_lib sample_csv sample_parquet 100000 sourceless_world)) = Map.empty \<and>
   dirs (fst (convert_csv_to_parquet sample_lib sample_csv sample_parquet 100000 sourceless_world)) =
     {Path True [''proj''], Path True [''proj'', ''data''], Path True [''proj'', ''data'', ''raw'']}"
proof -
  have h: "files sourceless_world sample_csv = None" "\<not> is_dir sourceless_world sample_csv"
    by (simp_all add: sample_defs is_dir_def)
  from missing_source_leaves_file_system [OF h, of sample_lib sample_parquet 100000 _ _, OF prod.collapse [symmetric]] h
  show ?thesis by (simp add: sourceless_world_def sample_world_def)
qed

subsection \<open>C4\<close>

text \<open>
  Claim C4. When the call returns, the line of the compression ratio shows
  \<open>(1 - parquet_size / csv_size) * 100\<close>, where the two sizes are those, in megabytes,
  of the source and of the destination file as they are on disk after the write.
\<close>

theorem compression_ratio_reported:
  assumes "convert_csv_to_parquet lib csv_path parquet_path c w = (w', Returned)"
  shows "\<exists>cb pb. files w' csv_path = Some cb \<and> files w' parquet_path = Some pb \<and> cb \<noteq> [] \<and>
     (csv_path \<noteq> parquet_path \<longrightarrow> files w csv_path = Some cb) \<and>
     get_file_size_mb lib w' csv_path = Inr (real (length cb) / 1048576) \<and>
     get_file_size_mb lib w' parquet_path = Inr (real (length pb) / 1048576) \<and>
     [Txt ''Compression ratio: '',
      FixedW 10 1 ((1 - (real (length pb) / 1048576) / (real (length cb) / 1048576)) * 100),
      Txt ''%''] \<in> set (out w')"
proof -
  from convert_Returned [OF assms] obtain b df w2 pb where
    b: "files w csv_path = Some b" and pb: "files w2 = (files w)(parquet_path \<mapsto> pb)"
    and rs: "report_summary lib df csv_path parquet_path w2 = (w', Inr ())" by blast
  define cb where "cb = (if csv_path = parquet_path then pb else b)"
  have fw': "files w' = files w2" using report_summary_files [of lib df csv_path parquet_path w2] rs by simp
  have c2: "files w2 csv_path = Some cb" and p2: "files w2 parquet_path = Some pb"
    by (simp_all add: pb b cb_def)
  from report_summary_Inr [OF rs] obtain csv_size parquet_size where
    s: "get_file_size_mb lib w2 csv_path = Inr csv_size" "get_file_size_mb lib w2 parquet_path = Inr parquet_size"
       "csv_size \<noteq> 0"
    and l: "[Txt ''Compression ratio: '', FixedW 10 1 ((1 - parquet_size / csv_size) * 100), Txt ''%''] \<in> set (out w')"
    by blast
  from s c2 p2 have cs: "csv_size = real (length cb) / 1048576" and ps: "parquet_size = real (length pb) / 1048576"
    by (simp_all add: get_file_size_mb_file)
  from s(3) cs have "cb \<noteq> []" by auto
  moreover have "csv_path \<noteq> parquet_path \<longrightarrow> files w csv_path = Some cb" by (simp add: cb_def b)
  moreover have "files w' csv_path = Some cb" "files w' parquet_path = Some pb" by (simp_all add: fw' c2 p2)
  ultimately show ?thesis using l unfolding cs ps
    by (intro exI [of _ cb] exI [of _ pb]) (simp add: get_file_size_mb_file)
qed

theorem compression_ratio_reported_witness:
  "snd (convert_csv_to_parquet sample_lib sample_csv sample_parquet 100000 sample_world) = Returned \<and>
   [Txt ''Compression ratio: '', FixedW 10 1 50, Txt ''%'']
     \<in> set (out (fst (convert_csv_to_parquet sample_lib sample_csv sample_parquet 100000 sample_world)))"
proof -
  from compression_ratio_reported [OF sample_run_pair] obtain cb pb where
    f: "files (fst (convert_csv_to_parquet sample_lib sample_csv sample_parquet 100000 sample_world))
          sample_csv = Some cb"
       "files (fst (convert_csv_to_parquet sample_lib sample_csv sample_parquet 100000 sample_world))
          sample_parquet = Some pb"
    and l: "[Txt ''Compression ratio: '',
             FixedW 10 1 ((1 - (real (length pb) / 1048576) / (real (length cb) / 1048576)) * 100),
             Txt ''%'']
     \<in> set (out (fst (convert_csv_to_parquet sample_lib sample_csv sample_parquet 100000 sample_world)))"
    by blast
  have ne: "sample_csv \<noteq> sample_parquet" by (simp add: sample_csv_def sample_parquet_def)
  from f ne have "cb = ''Invoice,''" and "pb = ''PAR1''"
    unfolding sample_run_files by simp_all
  with l sample_run_outcome show ?thesis by simp
qed

subsection \<open>C5\<close>

text \<open>
  Claim C5. The parameter \<open>chunk_size\<close> is dead: two calls that differ only in its value
  end in the same world (the same lines printed, the same files and directories) and
  with the same outcome.
\<close>

theorem chunk_size_dead:
  "convert_csv_to_parquet lib csv_path parquet_path c1 w = convert_csv_to_parquet lib csv_path parquet_path c2 w"
  by (simp add: convert_csv_to_parquet_def)

subsection \<open>C6\<close>

text \<open>
  Claim C6. For a path that exists, \<open>get_file_size_mb\<close> is the size in bytes divided by
  1,048,576: the length of a regular file, the platform's \<open>st_size\<close> of a directory.
  The function has no error path of its own: it fails exactly when the lookup of the path
  fails, and with that error.
\<close>

theorem get_file_size_mb_megabytes:
  "(\<forall>b. files w p = Some b \<longrightarrow> get_file_size_mb lib w p = Inr (real (length b) / 1048576)) \<and>
   (files w p = None \<and> is_dir w p \<longrightarrow> get_file_size_mb lib w p = Inr (real (dir_size lib) / 1048576)) \<and>
   (\<forall>e. get_file_size_mb lib w p = Inl e \<longleftrightarrow> resolve w p = Inl e)"
  by (auto simp add: get_file_size_mb_def st_size_def resolve_def split: sum.splits node.splits option.splits)

theorem get_file_size_mb_megabytes_witness:
  "files sample_world sample_csv = Some ''Invoice,'' \<and>
   get_file_size_mb sample_lib sample_world sample_csv = Inr (8 / 1048576) \<and> 
   get_file_size_mb sample_lib sample_world sample_root = Inr (4096 / 1048576) \<and>
   get_file_size_mb sample_lib sample_world sample_parquet = Inl (FileNotFoundError sample_parquet)"
  using get_file_size_mb_megabytes [of sample_world sample_csv sample_lib]
        get_file_size_mb_megabytes [of sample_world sample_root sample_lib]
        get_file_size_mb_megabytes [of sample_world sample_parquet sample_lib]
  by (simp add: sample_world_def sample_csv_def sample_root_def sample_parquet_def sample_lib_def
        is_dir_def resolve_def blocked_def lineage_def parent_def)

subsection \<open>C7\<close>

text \<open>
  Claim C7. Let the dataset load with its four columns, let the statistics step succeed
  (the minimum and the maximum of the dates are computed), and let no regular file stand
  where the parent directory of the destination or one of its ancestors has to be. Then
  after the call the parent directory exists; when it was absent, it and every missing
  ancestor have been created and nothing else; when it was there, the directories are
  unchanged; and when the frame encodes (and the destination is not itself a directory)
  the file system differs from the initial one by the destination file only.
\<close>

theorem output_directory_ensured:
  assumes "files w csv_path = Some b"
    and "csv_header lib b = Inr names" and "csv_body lib b = Inr rs"
    and "set [''InvoiceDate'', ''Invoice'', ''StockCode'', ''Customer ID''] \<subseteq> set names"
    and "getitem \<lparr>columns = names, rows = rs\<rparr> ''InvoiceDate'' = Inr dates"
    and "series_min lib dates = Inr lo" and "series_max lib dates = Inr hi"
    and blk: "\<forall>a \<in> set (lineage (parent parquet_path)). files w a = None"
    and run: "convert_csv_to_parquet lib csv_path parquet_path c w = (w', r)"
  shows "is_dir w' (parent parquet_path) \<and>
     dirs w' = (if is_dir w (parent parquet_path) then dirs w
                else dirs w \<union> set (lineage (parent parquet_path))) \<and>
     (\<forall>pb. parquet_encode lib \<lparr>columns = names, rows = rs\<rparr> = Inr pb \<and> \<not> is_dir w parquet_path \<longrightarrow>
        files w' = (files w)(parquet_path \<mapsto> pb))"
proof -
  define df where "df = \<lparr>columns = names, rows = rs\<rparr>"
  define w2 where "w2 = print_line [Txt ''File size: '', Fixed 2 (real (length b) / 1048576), Txt '' MB'', Txt nl]
               (print_line [Txt ''Reading CSV file: '', PathStr csv_path] w)"
  have cols: "columns df = names" by (simp add: df_def)
  have f2: "files w2 = files w" and d2: "dirs w2 = dirs w" by (simp_all add: w2_def)
  have rd: "read_csv lib w2 csv_path = Inr df"
    using assms(1-4) by (simp add: read_csv_file f2 df_def)
  from assms(4) obtain invoices products customers where
    g: "getitem df ''Invoice'' = Inr invoices"
       "getitem df ''StockCode'' = Inr products" "getitem df ''Customer ID'' = Inr customers"
    by (simp add: getitem_def cols)
  have gd: "getitem df ''InvoiceDate'' = Inr dates" using assms(5) by (simp add: df_def)
  define w3 where "w3 = fst (report_dataset lib df w2)"
  have rep: "report_dataset lib df w2 = (w3, Inr ())"
    using report_dataset_ok [OF gd assms(6,7) g, of w2] by (simp add: w3_def prod_eq_iff)
  have f3: "files w3 = files w" and d3: "dirs w3 = dirs w" by (simp_all add: w3_def f2 d2)
  have i3: "\<And>p. is_dir w3 p = is_dir w p" by (simp add: is_dir_def d3)
  have nb: "\<not> (\<exists>a \<in> set (lineage (parent parquet_path)). files w3 a \<noteq> None)"
    using blk by (simp add: f3)
  define w4 where "w4 = fst (write_output lib df parquet_path w3)"
  obtain r4 where wo: "write_output lib df parquet_path w3 = (w4, r4)"
    by (simp add: w4_def prod_eq_iff)
  have tb: "try_body lib csv_path parquet_path w2 =
      (case r4 of Inl e \<Rightarrow> (w4, Inl e) | Inr u \<Rightarrow> report_summary lib df csv_path parquet_path w4)"
    by (simp add: try_body_def rd rep wo)
  have fd: "files (fst (try_body lib csv_path parquet_path w2)) = files w4 \<and>
            dirs (fst (try_body lib csv_path parquet_path w2)) = dirs w4"
    by (cases r4) (simp_all add: tb)
  have "files w' = files (fst (try_body lib csv_path parquet_path w2)) \<and>
        dirs w' = dirs (fst (try_body lib csv_path parquet_path w2))"
    using run unfolding convert_source_file [OF assms(1)] w2_def [symmetric]
    by (auto split: prod.splits sum.splits if_splits)
  with fd have w': "files w' = files w4" "dirs w' = dirs w4" by simp_all
  from write_output_dirs [OF nb, of lib df] 
  have dd: "dirs w4 = (if is_dir w (parent parquet_path) then dirs w
                else dirs w \<union> set (lineage (parent parquet_path)))"
    and id: "is_dir w4 (parent parquet_path)"
    by (simp_all add: w4_def i3 d3)
  have "is_dir w' (parent parquet_path)" using id by (simp add: is_dir_def w')
  moreover have "files w' = (files w)(parquet_path \<mapsto> pb)"
    if "parquet_encode lib df = Inr pb" and "\<not> is_dir w parquet_path" for pb
  proof -
    from that(2) have "\<not> is_dir w3 parquet_path" by (simp add: i3)
    from write_output_files [OF nb that(1) this] show ?thesis
      by (simp add: w' w4_def f3)
  qed
  ultimately show ?thesis using dd by (simp add: w' df_def)
qed

theorem output_directory_ensured_witness:
  "\<not> is_dir sample_world (parent sample_parquet) \<and>
   is_dir (fst (convert_csv_to_parquet sample_lib sample_csv sample_parquet 100000 sample_world))
     (parent sample_parquet) \<and>
   dirs (fst (convert_csv_to_parquet sample_lib sample_csv sample_parquet 100000 sample_world)) =
     dirs sample_world \<union> {Path True [''proj''], Path True [''proj'', ''data''],
                            Path True [''proj'', ''data'', ''processed'']} \<and>
   files (fst (convert_csv_to_parquet sample_lib sample_csv sample_parquet 100000 sample_world)) =
     (files sample_world)(sample_parquet \<mapsto> ''PAR1'')"
proof -
  have c: "set [''InvoiceDate'', ''Invoice'', ''StockCode'', ''Customer ID''] \<subseteq> set (columns sample_frame)"
    by (simp add: sample_frame_def)
  have nb: "\<forall>a \<in> set (lineage (parent sample_parquet)). files sample_world a = None"
    by (simp add: sample_defs lineage_def parent_def)
  have nd: "\<not> is_dir sample_world (parent sample_parquet)" "\<not> is_dir sample_world sample_parquet"
    by (simp_all add: sample_defs is_dir_def parent_def)
  have en: "parquet_encode sample_lib \<lparr>columns = columns sample_frame, rows = rows sample_frame\<rparr> = Inr ''PAR1''"
    by (simp add: sample_lib_def)
  have li: "set (lineage (parent sample_parquet)) =
      {Path True [''proj''], Path True [''proj'', ''data''], Path True [''proj'', ''data'', ''processed'']}"
    by (auto simp add: sample_defs lineage_def parent_def)
  from output_directory_ensured [OF sample_source sample_header sample_body c sample_dates nb sample_run_pair]
       nd en li
  show ?thesis by simp
qed

subsection \<open>C8\<close>

text \<open>
  Claim C8. For a dataset that loads with the four columns and whose date range is
  computed (the minimum and the maximum of \<open>InvoiceDate\<close> do not raise), the three counts
  printed are the numbers of distinct values in the columns \<open>Invoice\<close>, \<open>StockCode\<close> and
  \<open>Customer ID\<close>, whatever the duplicates; a missing cell is not a value. The lines stay
  on the console however the call goes on.
\<close>

theorem distinct_counts_reported:
  assumes "files w csv_path = Some b"
    and "csv_header lib b = Inr names" and "csv_body lib b = Inr rs"
    and "set [''InvoiceDate'', ''Invoice'', ''StockCode'', ''Customer ID''] \<subseteq> set names"
    and "getitem \<lparr>columns = names, rows = rs\<rparr> ''InvoiceDate'' = Inr dates"
    and "series_min lib dates = Inr lo" and "series_max lib dates = Inr hi"
    and run: "convert_csv_to_parquet lib csv_path parquet_path c w = (w', r)"
  shows "\<exists>invoices products customers.
     getitem \<lparr>columns = names, rows = rs\<rparr> ''Invoice'' = Inr invoices \<and>
     getitem \<lparr>columns = names, rows = rs\<rparr> ''StockCode'' = Inr products \<and>
     getitem \<lparr>columns = names, rows = rs\<rparr> ''Customer ID'' = Inr customers \<and>
     [Txt ''  Unique invoices: '', Grouped (card {v. Some v \<in> set invoices})] \<in> set (out w') \<and>
     [Txt ''  Unique products: '', Grouped (card {v. Some v \<in> set products})] \<in> set (out w') \<and>
     [Txt ''  Unique customers: '', Grouped (card {v. Some v \<in> set customers})] \<in> set (out w')"
proof -
  define df where "df = \<lparr>columns = names, rows = rs\<rparr>"
  define w2 where "w2 = print_line [Txt ''File size: '', Fixed 2 (real (length b) / 1048576), Txt '' MB'', Txt nl]
               (print_line [Txt ''Reading CSV file: '', PathStr csv_path] w)"
  have cols: "columns df = names" by (simp add: df_def)
  from assms(4) obtain invoices products customers where
    g: "getitem df ''Invoice'' = Inr invoices"
       "getitem df ''StockCode'' = Inr products" "getitem df ''Customer ID'' = Inr customers"
    by (simp add: getitem_def cols)
  have gd: "getitem df ''InvoiceDate'' = Inr dates" using assms(5) by (simp add: df_def)
  have "files w2 csv_path = Some b" by (simp add: w2_def assms(1))
  then have rd: "read_csv lib w2 csv_path = Inr df"
    using assms(2,3,4) by (simp add: read_csv_file df_def)
  from try_body_out [OF rd, of parquet_path]
  obtain ls where ls: "out (fst (try_body lib csv_path parquet_path w2)) = out (fst (report_dataset lib df w2)) @ ls" ..
  from convert_out [OF assms(1), of lib parquet_path c] run
  obtain ls' where ls': "out w' = out (fst (try_body lib csv_path parquet_path w2)) @ ls'"
    by (auto simp add: w2_def)
  have sub: "set (out (fst (report_dataset lib df w2))) \<subseteq> set (out w')"
    by (simp add: ls ls')
  from report_dataset_ok [OF gd assms(6,7) g, of w2] sub g show ?thesis
    unfolding df_def [symmetric] nunique_card [symmetric] by blast
qed

theorem distinct_counts_reported_witness:
  "[Txt ''  Unique invoices: '', Grouped 2]
     \<in> set (out (fst (convert_csv_to_parquet sample_lib sample_csv sample_parquet 100000 sample_world))) \<and>
   [Txt ''  Unique products: '', Grouped 2]
     \<in> set (out (fst (convert_csv_to_parquet sample_lib sample_csv sample_parquet 100000 sample_world))) \<and>
   [Txt ''  Unique customers: '', Grouped 1]
     \<in> set (out (fst (convert_csv_to_parquet sample_lib sample_csv sample_parquet 100000 sample_world)))"
proof -
  have c: "set [''InvoiceDate'', ''Invoice'', ''StockCode'', ''Customer ID''] \<subseteq> set (columns sample_frame)"
    by (simp add: sample_frame_def)
  have g: "getitem \<lparr>columns = columns sample_frame, rows = rows sample_frame\<rparr> ''Invoice'' =
             Inr [Some 489434, Some 489434, Some 489435]"
    "getitem \<lparr>columns = columns sample_frame, rows = rows sample_frame\<rparr> ''StockCode'' =
             Inr [Some 85048, Some 79323, Some 85048]"
    "getitem \<lparr>columns = columns sample_frame, rows = rows sample_frame\<rparr> ''Customer ID'' =
             Inr [Some 13085, Some 13085, None]"
    by (simp_all add: sample_frame_def getitem_def cell_at_def)
  have n: "card {v. Some v \<in> set [Some 489434, Some 489434, Some (489435::nat)]} = 2"
    "card {v. Some v \<in> set [Some 85048, Some 79323, Some (85048::nat)]} = 2"
    "card {v. Some v \<in> set [Some 13085, Some 13085, (None::nat option)]} = 1"
    unfolding nunique_card [symmetric] by (simp_all add: nunique_def)
  from distinct_counts_reported [OF sample_source sample_header sample_body c sample_dates sample_run_pair] g n
  show ?thesis by auto
qed

subsection \<open>C9\<close>

text \<open>
  Claim C9. \<open>main\<close> calls \<open>convert_csv_to_parquet\<close> with the paths
  \<open>root/data/raw/online_retail_II.csv\<close> and \<open>root/data/processed/online_retail.parquet\<close>,
  where \<open>root\<close> is three \<open>.parent\<close> steps above \<open>__file__\<close>: for a script at
  \<open>root/d1/d2/f\<close> it is \<open>root\<close>. Arguments and environment are not read: two processes
  with the same \<open>__file__\<close> behave alike.
\<close>

theorem main_paths:
  "main lib pr w =
     (let project_root = parent (parent (parent (script_file pr)));
          csv_path = joinpath project_root [''data'', ''raw'', ''online_retail_II.csv''];
          parquet_path = joinpath project_root [''data'', ''processed'', ''online_retail.parquet'']
      in case convert_csv_to_parquet lib csv_path parquet_path 100000 (print_banner w) of
           (w', Returned) \<Rightarrow> (print_next_steps parquet_path w', Returned)
         | (w', r) \<Rightarrow> (w', r)) \<and>
   (\<forall>root d1 d2 f a. script_file pr = Path a (root @ [d1, d2, f]) \<longrightarrow>
      parent (parent (parent (script_file pr))) = Path a root \<and>
      joinpath (parent (parent (parent (script_file pr)))) [''data'', ''raw'', ''online_retail_II.csv'']
        = Path a (root @ [''data'', ''raw'', ''online_retail_II.csv'']) \<and>
      joinpath (parent (parent (parent (script_file pr)))) [''data'', ''processed'', ''online_retail.parquet'']
        = Path a (root @ [''data'', ''processed'', ''online_retail.parquet''])) \<and>
   (\<forall>pr'. script_file pr' = script_file pr \<longrightarrow> main lib pr' w = main lib pr w)"
proof (intro conjI)
  show "main lib pr w =
     (let project_root = parent (parent (parent (script_file pr)));
          csv_path = joinpath project_root [''data'', ''raw'', ''online_retail_II.csv''];
          parquet_path = joinpath project_root [''data'', ''processed'', ''online_retail.parquet'']
      in case convert_csv_to_parquet lib csv_path parquet_path 100000 (print_banner w) of
           (w', Returned) \<Rightarrow> (print_next_steps parquet_path w', Returned)
         | (w', r) \<Rightarrow> (w', r))"
    by (simp add: main_def Let_def)
next
  show "\<forall>root d1 d2 f a. script_file pr = Path a (root @ [d1, d2, f]) \<longrightarrow>
      parent (parent (parent (script_file pr))) = Path a root \<and>
      joinpath (parent (parent (parent (script_file pr)))) [''data'', ''raw'', ''online_retail_II.csv'']
        = Path a (root @ [''data'', ''raw'', ''online_retail_II.csv'']) \<and>
      joinpath (parent (parent (parent (script_file pr)))) [''data'', ''processed'', ''online_retail.parquet'']
        = Path a (root @ [''data'', ''processed'', ''online_retail.parquet''])"
    by (simp add: joinpath_def parent_def butlast_append)
next
  show "\<forall>pr'. script_file pr' = script_file pr \<longrightarrow> main lib pr' w = main lib pr w"
    by (simp add: main_def)
qed

theorem main_paths_witness:
  "joinpath (parent (parent (parent (script_file sample_process)))) [''data'', ''raw'', ''online_retail_II.csv'']
     = sample_csv \<and>
   joinpath (parent (parent (parent (script_file sample_process)))) [''data'', ''processed'', ''online_retail.parquet'']
     = sample_parquet \<and>
   main sample_lib (sample_process\<lparr>argv := [''convert_to_parquet.py'', ''--chunk'', ''5''],
                                    environ := [''DATA_DIR'' \<mapsto> ''/tmp'']\<rparr>) sample_world =
     main sample_lib sample_process sample_world"
proof -
  have f: "script_file sample_process = Path True ([''proj''] @ [''scripts'', ''python'', ''convert_to_parquet.py''])"
    by (simp add: sample_process_def)
  note mp = main_paths [of sample_lib sample_process sample_world]
  note p = mp [THEN conjunct2, THEN conjunct1, rule_format, OF f]
  have "script_file (sample_process\<lparr>argv := [''convert_to_parquet.py'', ''--chunk'', ''5''],
                                    environ := [''DATA_DIR'' \<mapsto> ''/tmp'']\<rparr>) = script_file sample_process"
    by simp
  note q = mp [THEN conjunct2, THEN conjunct2, rule_format, OF this]
  from p q show ?thesis
    unfolding sample_csv_def sample_parquet_def append_Cons append_Nil by blast
qed

subsection \<open>C10\<close>

text \<open>
  Claim C10. When the source file exists and its header lacks one of the four columns,
  the call prints an error line last and exits with status 1, and files and directories
  are as before. Without \<open>InvoiceDate\<close> it is \<open>read_csv\<close> that fails (\<open>ValueError\<close>); with
  it, and with rows that load, the load succeeds and it is the statistics step that
  fails, with the exception that the error line shows.
\<close>

theorem missing_column_exits_before_write:
  assumes "files w csv_path = Some b" and "csv_header lib b = Inr names"
    and "\<not> set [''InvoiceDate'', ''Invoice'', ''StockCode'', ''Customer ID''] \<subseteq> set names"
    and "convert_csv_to_parquet lib csv_path parquet_path c w = (w', r)"
  shows "r = Exited 1 \<and> files w' = files w \<and> dirs w' = dirs w \<and>
     (\<exists>e. last (out w') =
            (if is_FileNotFoundError e then [Txt ''Error: CSV file not found at '', PathStr csv_path]
             else [Txt ''Error during conversion: '', ExnStr e]) \<and>
        (''InvoiceDate'' \<notin> set names \<longrightarrow>
           read_csv lib w csv_path = Inl e \<and> e = ValueError ''InvoiceDate'') \<and>
        (\<forall>rs. ''InvoiceDate'' \<in> set names \<and> csv_body lib b = Inr rs \<longrightarrow>
           read_csv lib w csv_path = Inr \<lparr>columns = names, rows = rs\<rparr> \<and>
           snd (report_dataset lib \<lparr>columns = names, rows = rs\<rparr> w) = Inl e))"
proof -
  define w2 where "w2 = print_line [Txt ''File size: '', Fixed 2 (real (length b) / 1048576), Txt '' MB'', Txt nl]
               (print_line [Txt ''Reading CSV file: '', PathStr csv_path] w)"
  have f2: "files w2 = files w" and d2: "dirs w2 = dirs w" by (simp_all add: w2_def)
  have rd2: "read_csv lib w2 csv_path = read_csv lib w csv_path"
    by (rule read_csv_cong [OF f2 d2])
  note rd = read_csv_file [OF assms(1,2)]
  have "\<exists>w3 e. try_body lib csv_path parquet_path w2 = (w3, Inl e) \<and> files w3 = files w \<and> dirs w3 = dirs w \<and>
        (''InvoiceDate'' \<notin> set names \<longrightarrow>
           read_csv lib w csv_path = Inl e \<and> e = ValueError ''InvoiceDate'') \<and>
        (\<forall>rs. ''InvoiceDate'' \<in> set names \<and> csv_body lib b = Inr rs \<longrightarrow>
           read_csv lib w csv_path = Inr \<lparr>columns = names, rows = rs\<rparr> \<and>
           snd (report_dataset lib \<lparr>columns = names, rows = rs\<rparr> w) = Inl e)"
  proof (cases "''InvoiceDate'' \<in> set names")
    case False
    then have "read_csv lib w csv_path = Inl (ValueError ''InvoiceDate'')" by (simp add: rd)
    with False rd2 f2 d2 show ?thesis by (simp add: try_body_load_error)
  next
    case True
    show ?thesis
    proof (cases "csv_body lib b")
      case (Inl e)
      with True have "read_csv lib w csv_path = Inl e" by (simp add: rd)
      with True Inl rd2 f2 d2 show ?thesis by (simp add: try_body_load_error)
    next
      case (Inr rs)
      define df where "df = \<lparr>columns = names, rows = rs\<rparr>"
      have cols: "columns df = names" by (simp add: df_def)
      from True Inr have ld: "read_csv lib w csv_path = Inr df" by (simp add: rd df_def)
      have miss: "\<not> set [''InvoiceDate'', ''Invoice'', ''StockCode'', ''Customer ID''] \<subseteq> set (columns df)"
        unfolding cols by (rule assms(3))
      from report_dataset_fails [OF miss, of lib w]
      obtain k where k: "snd (report_dataset lib df w) = Inl k" ..
      then have k2: "snd (report_dataset lib df w2) = Inl k"
        by (simp add: report_dataset_result [of lib df w2 w])
      from ld rd2 k2
      have "try_body lib csv_path parquet_path w2 = (fst (report_dataset lib df w2), Inl k)"
        by (simp add: try_body_report_error)
      moreover have "files (fst (report_dataset lib df w2)) = files w"
        and "dirs (fst (report_dataset lib df w2)) = dirs w" by (simp_all add: f2 d2)
      ultimately show ?thesis using True Inr ld k
        by (simp add: df_def)
    qed
  qed
  then obtain w3 e where
    tb: "try_body lib csv_path parquet_path w2 = (w3, Inl e)" and fs: "files w3 = files w" "dirs w3 = dirs w"
    and rest: "(''InvoiceDate'' \<notin> set names \<longrightarrow>
           read_csv lib w csv_path = Inl e \<and> e = ValueError ''InvoiceDate'') \<and>
        (\<forall>rs. ''InvoiceDate'' \<in> set names \<and> csv_body lib b = Inr rs \<longrightarrow>
           read_csv lib w csv_path = Inr \<lparr>columns = names, rows = rs\<rparr> \<and>
           snd (report_dataset lib \<lparr>columns = names, rows = rs\<rparr> w) = Inl e)"
    by blast
  from assms(4) tb have fin: "r = Exited 1 \<and> files w' = files w3 \<and> dirs w' = dirs w3 \<and>
      last (out w') =
            (if is_FileNotFoundError e then [Txt ''Error: CSV file not found at '', PathStr csv_path]
             else [Txt ''Error during conversion: '', ExnStr e])"
    unfolding convert_source_file [OF assms(1)] w2_def [symmetric]
    by (auto split: if_splits)
  show ?thesis
    by (intro conjI exI [of _ e]) (use fin fs rest in simp_all)
qed

theorem missing_column_exits_before_write_witness:
  "snd (convert_csv_to_parquet no_stock_lib sample_csv sample_parquet 100000 sample_world) = Exited 1 \<and>
   last (out (fst (convert_csv_to_parquet no_stock_lib sample_csv sample_parquet 100000 sample_world))) =
     [Txt ''Error during conversion: '', ExnStr (KeyError ''StockCode'')] \<and>
   dirs (fst (convert_csv_to_parquet no_stock_lib sample_csv sample_parquet 100000 sample_world)) =
     dirs sample_world \<and>
   files (fst (convert_csv_to_parquet no_stock_lib sample_csv sample_parquet 100000 sample_world))
     sample_parquet = None \<and>
   snd (convert_csv_to_parquet mixed_dates_lib sample_csv sample_parquet 100000 sample_world) = Exited 1 \<and>
   last (out (fst (convert_csv_to_parquet mixed_dates_lib sample_csv sample_parquet 100000 sample_world))) =
     [Txt ''Error during conversion: '', ExnStr (TypeError ''str and float'')] \<and>
   dirs (fst (convert_csv_to_parquet mixed_dates_lib sample_csv sample_parquet 100000 sample_world)) =
     dirs sample_world \<and>
   snd (convert_csv_to_parquet no_date_lib sample_csv sample_parquet 100000 sample_world) = Exited 1 \<and>
   last (out (fst (convert_csv_to_parquet no_date_lib sample_csv sample_parquet 100000 sample_world))) =
     [Txt ''Error during conversion: '', ExnStr (ValueError ''InvoiceDate'')] \<and>
   dirs (fst (convert_csv_to_parquet no_date_lib sample_csv sample_parquet 100000 sample_world)) =
     dirs sample_world"
proof -
  have h1: "csv_header no_stock_lib ''Invoice,'' = Inr [''Invoice'', ''InvoiceDate'', ''Customer ID'']"
    and b1: "csv_body no_stock_lib ''Invoice,'' = Inr (rows sample_frame)"
    and h3: "csv_header mixed_dates_lib ''Invoice,'' = Inr [''Invoice'', ''InvoiceDate'', ''Customer ID'']"
    and b3: "csv_body mixed_dates_lib ''Invoice,'' = Inr (rows sample_frame)"
    and h2: "csv_header no_date_lib ''Invoice,'' = Inr [''Invoice'', ''StockCode'', ''Customer ID'']"
    by (simp_all add: sample_defs)
  have m1: "\<not> set [''InvoiceDate'', ''Invoice'', ''StockCode'', ''Customer ID'']
              \<subseteq> set [''Invoice'', ''InvoiceDate'', ''Customer ID'']"
    and m2: "\<not> set [''InvoiceDate'', ''Invoice'', ''StockCode'', ''Customer ID'']
              \<subseteq> set [''Invoice'', ''StockCode'', ''Customer ID'']"
    by simp_all
  have np: "files sample_world sample_parquet = None" by (simp add: sample_defs)
  have s1: "snd (report_dataset no_stock_lib
                  \<lparr>columns = [''Invoice'', ''InvoiceDate'', ''Customer ID''], rows = rows sample_frame\<rparr>
                  sample_world) = Inl (KeyError ''StockCode'')"
    and s3: "snd (report_dataset mixed_dates_lib
                  \<lparr>columns = [''Invoice'', ''InvoiceDate'', ''Customer ID''], rows = rows sample_frame\<rparr>
                  sample_world) = Inl (TypeError ''str and float'')"
    by (simp_all add: report_dataset_def Let_def getitem_def sample_defs)
  from missing_column_exits_before_write [OF sample_source h1 m1 prod.collapse [symmetric], of sample_parquet 100000]
       missing_column_exits_before_write [OF sample_source [unfolded sample_lib_def] h3 m1 prod.collapse [symmetric],
                                          of sample_parquet 100000]
       missing_column_exits_before_write [OF sample_source h2 m2 prod.collapse [symmetric], of sample_parquet 100000]
       b1 b3 np s1 s3
  show ?thesis by auto
qed

end
